theory Spec2Isabelle
  imports Main "HOL-Library.Word"
begin

section \<open>Python values handled by app.py\<close>

text \<open>
  A Python \<open>float\<close> is an IEEE-754 binary64 value, modelled by its 64-bit pattern.
  The service never computes with the numeric fields; the only operation app.py applies
  to them is the truth test of \<open>x or 0\<close>, which is \<open>x != 0.0\<close>: false for the two
  zeros, true for every other pattern (NaN and the infinities included).
\<close>

type_synonym pyfloat = "64 word"

definition pos_zero :: pyfloat where
  "pos_zero = 0"

definition neg_zero :: pyfloat where
  "neg_zero = 0x8000000000000000"

definition float_is_zero :: "pyfloat \<Rightarrow> bool" where
  "float_is_zero x = (x = pos_zero \<or> x = neg_zero)"

text \<open>An element of the feature list is a Python \<open>int\<close> or a Python \<open>float\<close>.\<close>

datatype pyval = PyInt int | PyFloat pyfloat

text \<open>
  \<open>value or 0\<close> for an \<open>Optional[float]\<close>: \<open>None\<close> and the zeros are falsy and give
  the integer \<open>0\<close>; any other float is returned as it is.
\<close>

definition or_0 :: "pyfloat option \<Rightarrow> pyval" where
  "or_0 v = (case v of None \<Rightarrow> PyInt 0
             | Some x \<Rightarrow> if float_is_zero x then PyInt 0 else PyFloat x)"

section \<open>Strings and case mapping\<close>

text \<open>
  Labels are modelled as \<open>string\<close>. \<open>str.lower\<close> and \<open>str.upper\<close> are modelled on ASCII
  text, where Python maps character by character: \<open>A..Z\<close> and \<open>a..z\<close> are exchanged and
  every other ASCII character is kept. Python's case mapping of code points beyond ASCII
  (\<open>str.lower\<close> folds U+00C9 to U+00E9 and the Kelvin sign U+212A to \<open>k\<close>) is outside this
  model: the statements below either hold for any case folding put in place of \<open>lower\<close>,
  or are stated for ASCII labels.
\<close>

definition lower_char :: "char \<Rightarrow> char" where
  "lower_char c = (let n = (of_char c :: nat) in
                   if 65 \<le> n \<and> n \<le> 90 then char_of (n + 32) else c)"

definition upper_char :: "char \<Rightarrow> char" where
  "upper_char c = (let n = (of_char c :: nat) in
                   if 97 \<le> n \<and> n \<le> 122 then char_of (n - 32) else c)"

definition lower :: "string \<Rightarrow> string" where
  "lower s = map lower_char s"

definition upper :: "string \<Rightarrow> string" where
  "upper s = map upper_char s"

definition ascii :: "string \<Rightarrow> bool" where
  "ascii s = list_all (\<lambda>c. (of_char c :: nat) < 128) s"

section \<open>The request model (class PredictRequest)\<close>

record PredictRequest =
  age :: "pyfloat option"
  gender :: "string option"
  weight :: "pyfloat option"
  height :: "pyfloat option"
  fat_percentage :: "pyfloat option"
  bmi_input :: "pyfloat option"
  workout_type :: "string option"
  session_duration :: "pyfloat option"
  workout_frequency :: "pyfloat option"
  max_bpm :: "pyfloat option"
  avg_bpm :: "pyfloat option"
  resting_bpm :: "pyfloat option"
  difficulty :: "string option"
  body_part :: "string option"
  meal_type :: "string option"
  diet_type :: "string option"
  cooking_method :: "string option"
  water_intake :: "pyfloat option"
  meals_frequency :: "pyfloat option"
  sugar_g :: "pyfloat option"
  sodium_mg :: "pyfloat option"
  cholesterol_mg :: "pyfloat option"
  serving_size_g :: "pyfloat option"
  prep_time_min :: "pyfloat option"
  cook_time_min :: "pyfloat option"
  rating :: "pyfloat option"
  experience_level :: "pyfloat option"
  physical_exercise :: "pyfloat option"

text \<open>The request in which every field keeps its default \<open>None\<close>.\<close>

definition empty_request :: PredictRequest where
  "empty_request = \<lparr>
     age = None, gender = None, weight = None, height = None,
     fat_percentage = None, bmi_input = None,
     workout_type = None, session_duration = None, workout_frequency = None,
     max_bpm = None, avg_bpm = None, resting_bpm = None,
     difficulty = None, body_part = None,
     meal_type = None, diet_type = None, cooking_method = None,
     water_intake = None, meals_frequency = None, sugar_g = None,
     sodium_mg = None, cholesterol_mg = None, serving_size_g = None,
     prep_time_min = None, cook_time_min = None, rating = None,
     experience_level = None, physical_exercise = None \<rparr>"

section \<open>The category encoder\<close>

text \<open>
  \<open>encode(category, mapping)\<close>: \<open>None\<close> gives 0, otherwise
  \<open>mapping.get(str(category).lower(), 0)\<close>. The category is already a \<open>str\<close>
  (the field is \<open>Optional[str]\<close>), so \<open>str\<close> returns it as it is.
\<close>

definition encode :: "string option \<Rightarrow> (string \<rightharpoonup> int) \<Rightarrow> int" where
  "encode category mapping =
     (case category of
        None \<Rightarrow> 0
      | Some c \<Rightarrow> (case mapping (lower c) of None \<Rightarrow> 0 | Some code \<Rightarrow> code))"

definition gender_map :: "string \<rightharpoonup> int" where
  "gender_map = [''male'' \<mapsto> 1, ''female'' \<mapsto> 2, ''other'' \<mapsto> 3]"

definition workout_map :: "string \<rightharpoonup> int" where
  "workout_map = [''strength'' \<mapsto> 1, ''cardio'' \<mapsto> 2, ''flexibility'' \<mapsto> 3, ''other'' \<mapsto> 4]"

definition difficulty_map :: "string \<rightharpoonup> int" where
  "difficulty_map = [''beginner'' \<mapsto> 1, ''intermediate'' \<mapsto> 2, ''advanced'' \<mapsto> 3]"

definition body_part_map :: "string \<rightharpoonup> int" where
  "body_part_map = [''core'' \<mapsto> 1, ''upper body'' \<mapsto> 2, ''lower body'' \<mapsto> 3,
                    ''full body'' \<mapsto> 4, ''other'' \<mapsto> 5]"

definition meal_map :: "string \<rightharpoonup> int" where
  "meal_map = [''breakfast'' \<mapsto> 1, ''lunch'' \<mapsto> 2, ''dinner'' \<mapsto> 3, ''snack'' \<mapsto> 4]"

definition diet_map :: "string \<rightharpoonup> int" where
  "diet_map = [''standard'' \<mapsto> 1, ''vegan'' \<mapsto> 2, ''keto'' \<mapsto> 3, ''paleo'' \<mapsto> 4,
               ''mediterranean'' \<mapsto> 5]"

definition cooking_map :: "string \<rightharpoonup> int" where
  "cooking_map = [''baked'' \<mapsto> 1, ''boiled'' \<mapsto> 2, ''grilled'' \<mapsto> 3, ''fried'' \<mapsto> 4,
                  ''steamed'' \<mapsto> 5]"

text \<open>The seven maps of lines 123 to 129, in the order of their definition.\<close>

definition category_maps :: "(string \<rightharpoonup> int) list" where
  "category_maps = [gender_map, workout_map, difficulty_map, body_part_map,
                    meal_map, diet_map, cooking_map]"

section \<open>The feature list built by the /predict handler\<close>

text \<open>
  The first statements of the \<open>try\<close> block of \<open>predict\<close>: the seven encoded
  categories, then the list literal \<open>features\<close>.
\<close>

definition features :: "PredictRequest \<Rightarrow> pyval list" where
  "features data =
     (let gender_code = encode (gender data) gender_map;
          workout_type_code = encode (workout_type data) workout_map;
          difficulty_code = encode (difficulty data) difficulty_map;
          body_part_code = encode (body_part data) body_part_map;
          meal_type_code = encode (meal_type data) meal_map;
          diet_type_code = encode (diet_type data) diet_map;
          cooking_method_code = encode (cooking_method data) cooking_map
      in [ or_0 (age data), PyInt gender_code, or_0 (weight data), or_0 (height data),
           or_0 (fat_percentage data), or_0 (bmi_input data),
           PyInt workout_type_code, or_0 (session_duration data),
           or_0 (workout_frequency data), or_0 (max_bpm data),
           or_0 (avg_bpm data), or_0 (resting_bpm data),
           PyInt difficulty_code, PyInt body_part_code,
           PyInt meal_type_code, PyInt diet_type_code, PyInt cooking_method_code,
           or_0 (water_intake data), or_0 (meals_frequency data),
           or_0 (sugar_g data), or_0 (sodium_mg data),
           or_0 (cholesterol_mg data), or_0 (serving_size_g data),
           or_0 (prep_time_min data), or_0 (cook_time_min data),
           or_0 (rating data),
           or_0 (experience_level data), or_0 (physical_exercise data) ])"

section \<open>Exceptions and handler results\<close>

text \<open>
  The exceptions that occur in the model. \<open>FileNotFoundError msg\<close> is the built-in class
  with its message. \<open>Exception r\<close> stands for an instance of any other class derived from
  \<open>Exception\<close>, and \<open>BaseException r\<close> for an instance of a class outside \<open>Exception\<close>
  (\<open>SystemExit\<close>, \<open>KeyboardInterrupt\<close>, \<open>GeneratorExit\<close>); \<open>r\<close> is the outcome of
  \<open>str(e)\<close>: the message, or the exception that the object's \<open>__str__\<close> raises.
\<close>

datatype exn =
    FileNotFoundError string
  | Exception "exn + string"
  | BaseException "exn + string"

text \<open>\<open>isinstance(e, Exception)\<close>: what the clause \<open>except Exception\<close> catches.\<close>

fun isinstance_Exception :: "exn \<Rightarrow> bool" where
  "isinstance_Exception (FileNotFoundError _) = True"
| "isinstance_Exception (Exception _) = True"
| "isinstance_Exception (BaseException _) = False"

fun str_exn :: "exn \<Rightarrow> exn + string" where
  "str_exn (FileNotFoundError msg) = Inr msg"
| "str_exn (Exception r) = r"
| "str_exn (BaseException r) = r"

text \<open>
  What a handler of app.py returns: a plain dict with string keys, or a \<open>Response\<close> object
  built with an explicit status code.
\<close>

datatype json = JFloat pyfloat | JStr string

datatype handler_return =
    Dict "(string \<times> json) list"
  | Response string nat




section \<open>The estimator and the /predict handler\<close>

text \<open>
  The object loaded from the artifact is opaque. What the handler does with it is three
  steps, each of which returns or raises: the call \<open>model.predict([features])\<close>, the
  indexing of its result with \<open>[0]\<close>, and \<open>float(pred)\<close>. An estimator is the outcome of
  these three steps for a given list of rows; for a regressor that returns an array of
  \<open>float64\<close> values it is \<open>Inr (Inr (Inr p))\<close> with the first prediction \<open>p\<close>.
\<close>

type_synonym estimator = "pyval list list \<Rightarrow> exn + (exn + (exn + pyfloat))"

text \<open>
  Lines 161 to 163: \<open>pred = model.predict([features])[0]\<close>, then
  \<open>return {"predicted_calories": float(pred)}\<close>.
\<close>

definition inference :: "estimator \<Rightarrow> pyval list \<Rightarrow> exn + handler_return" where
  "inference model feats =
     (case model [feats] of
        Inl e \<Rightarrow> Inl e
      | Inr result \<Rightarrow>
          (case result of
             Inl e \<Rightarrow> Inl e
           | Inr pred \<Rightarrow>
               (case pred of
                  Inl e \<Rightarrow> Inl e
                | Inr x \<Rightarrow> Inr (Dict [(''predicted_calories'', JFloat x)]))))"

text \<open>
  The handler: the \<open>try\<close> block builds the feature list and runs the inference;
  \<open>except Exception as e\<close> catches an instance of \<open>Exception\<close> and returns
  \<open>{"error": str(e)}\<close>; an exception that \<open>str(e)\<close> raises there is not inside any
  \<open>try\<close>. \<open>Inl e\<close> is an exception that leaves the handler. The global \<open>model\<close> that the
  body reads is the first argument; the record of the globals below supplies it.
\<close>

definition predict :: "estimator \<Rightarrow> PredictRequest \<Rightarrow> exn + handler_return" where
  "predict model data =
     (case inference model (features data) of
        Inr r \<Rightarrow> Inr r
      | Inl e \<Rightarrow>
          if isinstance_Exception e
          then (case str_exn e of
                  Inl e' \<Rightarrow> Inl e'
                | Inr msg \<Rightarrow> Inr (Dict [(''error'', JStr msg)]))
          else Inl e)"

section \<open>Module globals, the other routes and the process\<close>

record AuthRequest =
  name :: "string option"
  email :: string
  password :: string

text \<open>
  The globals that the handlers use: the loaded \<open>model\<close> and \<open>fake_users_db\<close>, a dict
  from the email to the stored pair of name and password.
\<close>

record app_state =
  model :: estimator
  fake_users_db :: "string \<rightharpoonup> (string option \<times> string)"

definition signup :: "AuthRequest \<Rightarrow> app_state \<Rightarrow> handler_return \<times> app_state" where
  "signup data s =
     (if fake_users_db s (email data) \<noteq> None
      then (Dict [(''error'', JStr ''User already exists'')], s)
      else (Dict [(''message'', JStr ''Signup successful'')],
            s\<lparr>fake_users_db := (fake_users_db s)(email data \<mapsto> (name data, password data))\<rparr>))"

definition login :: "AuthRequest \<Rightarrow> app_state \<Rightarrow> handler_return" where
  "login data s =
     (case fake_users_db s (email data) of
        None \<Rightarrow> Dict [(''error'', JStr ''Invalid credentials'')]
      | Some user \<Rightarrow>
          if snd user \<noteq> password data then Dict [(''error'', JStr ''Invalid credentials'')]
          else Dict [(''message'', JStr ''Login successful'')])"

definition favicon :: handler_return where
  "favicon = Response [] 204"

definition health :: handler_return where
  "health = Dict [(''status'', JStr ''FitTrack AI Backend Running!'')]"

text \<open>
  A request names the route it goes to (the route \<open>/\<close>, which sends the static index
  file, is left out). Each call of a handler takes the globals and returns them; only
  \<open>signup\<close> assigns to one.
\<close>

datatype request =
    Signup AuthRequest
  | Login AuthRequest
  | Predict PredictRequest
  | Favicon
  | Status

fun handle :: "request \<Rightarrow> app_state \<Rightarrow> (exn + handler_return) \<times> app_state" where
  "handle (Signup data) s = (case signup data s of (r, s') \<Rightarrow> (Inr r, s'))"
| "handle (Login data) s = (Inr (login data s), s)"
| "handle (Predict data) s = (predict (model s) data, s)"
| "handle Favicon s = (Inr favicon, s)"
| "handle Status s = (Inr health, s)"

fun run :: "request list \<Rightarrow> app_state \<Rightarrow> (exn + handler_return) list \<times> app_state" where
  "run [] s = ([], s)"
| "run (r # rs) s =
     (case handle r s of (out, s') \<Rightarrow> (case run rs s' of (outs, s'') \<Rightarrow> (out # outs, s'')))"

text \<open>
  The top level of the module. \<open>os.path.join\<close> is the POSIX one on two components. The
  operating system is a parameter: the outcome of \<open>os.makedirs(STATIC_DIR, exist_ok=True)\<close>
  (\<open>None\<close> when it returns), \<open>os.path.exists\<close> as line 50 finds the file system, and
  \<open>joblib.load\<close>.
\<close>

definition os_path_join :: "string \<Rightarrow> string \<Rightarrow> string" where
  "os_path_join a b =
     (if take 1 b = ''/'' then b
      else if a = [] then b
      else if last a = CHR ''/'' then a @ b
      else a @ ''/'' @ b)"

definition STATIC_DIR :: "string \<Rightarrow> string" where
  "STATIC_DIR BASE_DIR = os_path_join BASE_DIR ''static''"

definition MODEL_FILE :: "string \<Rightarrow> string" where
  "MODEL_FILE BASE_DIR = os_path_join BASE_DIR ''calories_predictor_model.joblib''"

record os_env =
  makedirs :: "string \<Rightarrow> exn option"
  path_exists :: "string \<Rightarrow> bool"
  joblib_load :: "string \<Rightarrow> exn + estimator"

text \<open>
  Importing the module runs its statements in order; the first exception ends the import,
  and the server has no application to serve. The statements that touch the operating
  system are \<open>os.makedirs\<close> (line 30), the check of the model file (lines 50 and 51) and
  \<open>joblib.load\<close> (line 53); creating the application, mounting the static directory that
  \<open>os.makedirs\<close> has just ensured and registering the routes come in between. On success
  the globals are the loaded model and the empty user store.
\<close>

definition load_module :: "os_env \<Rightarrow> string \<Rightarrow> exn + app_state" where
  "load_module os BASE_DIR =
     (case makedirs os (STATIC_DIR BASE_DIR) of
        Some e \<Rightarrow> Inl e
      | None \<Rightarrow>
          if \<not> path_exists os (MODEL_FILE BASE_DIR)
          then Inl (FileNotFoundError ''Model file missing: calories_predictor_model.joblib'')
          else (case joblib_load os (MODEL_FILE BASE_DIR) of
                  Inl e \<Rightarrow> Inl e
                | Inr m \<Rightarrow> Inr \<lparr> model = m, fake_users_db = Map.empty \<rparr>))"

text \<open>
  The process: requests are answered only by an application that was loaded; the answers
  are those of the handlers, in order.
\<close>

definition serve :: "os_env \<Rightarrow> string \<Rightarrow> request list \<Rightarrow> exn + (exn + handler_return) list" where
  "serve os BASE_DIR reqs =
     (case load_module os BASE_DIR of
        Inl e \<Rightarrow> Inl e
      | Inr s \<Rightarrow> Inr (fst (run reqs s)))"

section \<open>Example inputs\<close>

text \<open>
  Concrete inputs on which the theorems below are evaluated: the request of the
  end-to-end example (gender Female, weight 65.0, height 1.70, workout type cardio,
  session duration 1.0, as binary64 patterns), the predictions 400.0 and NaN, estimators
  that return a fixed prediction, raise at the call, or return an empty array (so that
  \<open>[0]\<close> raises \<open>IndexError\<close>), an exception whose \<open>__str__\<close> raises, and two operating
  systems, one without and one with the model file under \<open>/srv/app\<close>.
\<close>

definition example_request :: PredictRequest where
  "example_request = empty_request\<lparr>
     gender := Some ''Female'', weight := Some 0x4050400000000000,
     height := Some 0x3FFB333333333333, workout_type := Some ''cardio'',
     session_duration := Some 0x3FF0000000000000 \<rparr>"

definition example_prediction :: pyfloat where
  "example_prediction = 0x4079000000000000"


definition constant_estimator :: "pyfloat \<Rightarrow> estimator" where
  "constant_estimator p X = Inr (Inr (Inr p))"




definition os_without_model :: os_env where
  "os_without_model = \<lparr> makedirs = (\<lambda>path. None), path_exists = (\<lambda>path. False),
     joblib_load = (\<lambda>path. Inr (constant_estimator example_prediction)) \<rparr>"

definition os_with_model :: os_env where
  "os_with_model = \<lparr> makedirs = (\<lambda>path. None),
     path_exists = (\<lambda>path. path = ''/srv/app/calories_predictor_model.joblib''),
     joblib_load = (\<lambda>path. Inr (constant_estimator example_prediction)) \<rparr>"

section \<open>Case mapping and the seven maps\<close>

lemma lower_upper_char: "lower_char (upper_char c) = lower_char c"
  by (auto simp: lower_char_def upper_char_def Let_def)

lemma lower_upper: "lower (upper s) = lower s"
  by (simp add: lower_def upper_def lower_upper_char)

lemma lower_Female: "lower ''Female'' = ''female''"
  by code_simp

lemma lower_Alien: "lower ''Alien'' = ''alien''"
  by code_simp

lemma lower_cardio: "lower ''cardio'' = ''cardio''"
  by code_simp

lemma lower_OTHER: "lower ''OTHER'' = ''other''"
  by code_simp

lemma upper_female: "upper ''female'' = ''FEMALE''"
  by code_simp

lemma upper_full_body: "upper ''full body'' = ''FULL BODY''"
  by code_simp

text \<open>Every label of the seven maps is ASCII text, the part of Python's case mapping that is modelled.\<close>

lemma category_labels_ascii:
  "mapping \<in> set category_maps \<Longrightarrow> label \<in> dom mapping \<Longrightarrow> ascii label"
  by (auto simp: category_maps_def gender_map_def workout_map_def difficulty_map_def
        body_part_map_def meal_map_def diet_map_def cooking_map_def ascii_def
      split: if_splits)

lemma graph_gender_map:
  "Map.graph gender_map = {(''male'', 1), (''female'', 2), (''other'', 3)}"
  by (auto simp: Map.graph_def gender_map_def split: if_splits)

lemma graph_workout_map:
  "Map.graph workout_map =
     {(''strength'', 1), (''cardio'', 2), (''flexibility'', 3), (''other'', 4)}"
  by (auto simp: Map.graph_def workout_map_def split: if_splits)

lemma graph_difficulty_map:
  "Map.graph difficulty_map = {(''beginner'', 1), (''intermediate'', 2), (''advanced'', 3)}"
  by (auto simp: Map.graph_def difficulty_map_def split: if_splits)

lemma graph_body_part_map:
  "Map.graph body_part_map =
     {(''core'', 1), (''upper body'', 2), (''lower body'', 3), (''full body'', 4), (''other'', 5)}"
  by (auto simp: Map.graph_def body_part_map_def split: if_splits)

lemma graph_meal_map:
  "Map.graph meal_map = {(''breakfast'', 1), (''lunch'', 2), (''dinner'', 3), (''snack'', 4)}"
  by (auto simp: Map.graph_def meal_map_def split: if_splits)

lemma graph_diet_map:
  "Map.graph diet_map =
     {(''standard'', 1), (''vegan'', 2), (''keto'', 3), (''paleo'', 4), (''mediterranean'', 5)}"
  by (auto simp: Map.graph_def diet_map_def split: if_splits)

lemma graph_cooking_map:
  "Map.graph cooking_map =
     {(''baked'', 1), (''boiled'', 2), (''grilled'', 3), (''fried'', 4), (''steamed'', 5)}"
  by (auto simp: Map.graph_def cooking_map_def split: if_splits)

lemma card_dom_maps:
  "card (dom gender_map) = 3" "card (dom workout_map) = 4" "card (dom difficulty_map) = 3"
  "card (dom body_part_map) = 5" "card (dom meal_map) = 4" "card (dom diet_map) = 5"
  "card (dom cooking_map) = 5"
  by (simp_all add: gender_map_def workout_map_def difficulty_map_def body_part_map_def
        meal_map_def diet_map_def cooking_map_def)

lemma encode_gender_range: "encode c gender_map \<in> {0 .. 3}"
  by (simp add: encode_def gender_map_def split: option.split)

lemma encode_workout_range: "encode c workout_map \<in> {0 .. 4}"
  by (simp add: encode_def workout_map_def split: option.split)

lemma encode_difficulty_range: "encode c difficulty_map \<in> {0 .. 3}"
  by (simp add: encode_def difficulty_map_def split: option.split)

lemma encode_body_part_range: "encode c body_part_map \<in> {0 .. 5}"
  by (simp add: encode_def body_part_map_def split: option.split)

lemma encode_meal_range: "encode c meal_map \<in> {0 .. 4}"
  by (simp add: encode_def meal_map_def split: option.split)

lemma encode_diet_range: "encode c diet_map \<in> {0 .. 5}"
  by (simp add: encode_def diet_map_def split: option.split)

lemma encode_cooking_range: "encode c cooking_map \<in> {0 .. 5}"
  by (simp add: encode_def cooking_map_def split: option.split)

text \<open>The upper bounds are reached: the label \<open>other\<close> of the workout map has code 4.\<close>

lemma workout_slot_reaches_4:
  "features (empty_request\<lparr>workout_type := Some ''OTHER''\<rparr>) ! 6 = PyInt 4"
  by (simp add: features_def Let_def encode_def lower_OTHER workout_map_def)

section \<open>The encoder\<close>

text \<open>
  C2: \<open>encode\<close> returns 0 for an absent label, the map's code of the lower-cased label
  when that is a key of the map, and 0 when the lower-cased label is not a key. The
  function is total: its result is an integer in every case, and no step of it raises.
\<close>

theorem encode_cases:
  "encode None mapping = 0
   \<and> (mapping (lower label) = Some code \<longrightarrow> encode (Some label) mapping = code)
   \<and> (lower label \<notin> dom mapping \<longrightarrow> encode (Some label) mapping = 0)"
  by (auto simp: encode_def split: option.split)

theorem encode_cases_witness:
  "encode None gender_map = 0
   \<and> gender_map (lower ''Female'') = Some 2 \<and> encode (Some ''Female'') gender_map = 2
   \<and> lower ''Alien'' \<notin> dom gender_map \<and> encode (Some ''Alien'') gender_map = 0"
  using encode_cases [of gender_map "''Female''" 2] encode_cases [of gender_map "''Alien''" 0]
  by (simp add: lower_Female lower_Alien gender_map_def)

text \<open>
  C5: encoding is case-insensitive on known labels: for a key \<open>label\<close> of a map, the
  upper-cased label has the same code. This holds for each of the seven category maps, and
  for any other map on ASCII labels.
\<close>

theorem encode_case_insensitive:
  "label \<in> dom mapping \<Longrightarrow> mapping \<in> set category_maps \<or> ascii label \<Longrightarrow>
     encode (Some label) mapping = encode (Some (upper label)) mapping"
  by (simp add: encode_def lower_upper)

theorem encode_case_insensitive_witness:
  "''full body'' \<in> dom body_part_map \<and> body_part_map \<in> set category_maps
   \<and> ascii ''full body'' \<and> upper ''full body'' = ''FULL BODY''
   \<and> encode (Some ''full body'') body_part_map = 4
   \<and> encode (Some ''FULL BODY'') body_part_map = 4"
proof -
  have d: "''full body'' \<in> dom body_part_map"
    by (simp add: body_part_map_def)
  have m: "body_part_map \<in> set category_maps"
    by (simp add: category_maps_def)
  have a: "ascii ''full body''"
    by (rule category_labels_ascii [OF m d])
  have e: "encode (Some ''full body'') body_part_map = 4"
    by code_simp
  from encode_case_insensitive [OF d disjI1 [OF m]] e
  have "encode (Some ''FULL BODY'') body_part_map = 4"
    by (simp only: upper_full_body)
  with d m a e show ?thesis
    by (simp only: upper_full_body simp_thms)
qed

text \<open>
  C3: the seven category maps hold exactly these label/code pairs (the graph of a map is
  the set of its key/value pairs, so no other label is a key):
  gender male 1, female 2, other 3; workout type strength 1, cardio 2, flexibility 3,
  other 4; difficulty beginner 1, intermediate 2, advanced 3; body part core 1,
  upper body 2, lower body 3, full body 4, other 5; meal type breakfast 1, lunch 2,
  dinner 3, snack 4; diet type standard 1, vegan 2, keto 3, paleo 4, mediterranean 5;
  cooking method baked 1, boiled 2, grilled 3, fried 4, steamed 5.
\<close>

theorem category_maps_contents:
  "length category_maps = 7
   \<and> Map.graph gender_map = {(''male'', 1), (''female'', 2), (''other'', 3)}
   \<and> Map.graph workout_map =
       {(''strength'', 1), (''cardio'', 2), (''flexibility'', 3), (''other'', 4)}
   \<and> Map.graph difficulty_map =
       {(''beginner'', 1), (''intermediate'', 2), (''advanced'', 3)}
   \<and> Map.graph body_part_map =
       {(''core'', 1), (''upper body'', 2), (''lower body'', 3), (''full body'', 4),
        (''other'', 5)}
   \<and> Map.graph meal_map =
       {(''breakfast'', 1), (''lunch'', 2), (''dinner'', 3), (''snack'', 4)}
   \<and> Map.graph diet_map =
       {(''standard'', 1), (''vegan'', 2), (''keto'', 3), (''paleo'', 4),
        (''mediterranean'', 5)}
   \<and> Map.graph cooking_map =
       {(''baked'', 1), (''boiled'', 2), (''grilled'', 3), (''fried'', 4), (''steamed'', 5)}"
  unfolding graph_gender_map graph_workout_map graph_difficulty_map graph_body_part_map
    graph_meal_map graph_diet_map graph_cooking_map
  by (simp add: category_maps_def)

section \<open>The feature list\<close>

text \<open>
  C1, as the code has it: for every request the feature list is the 28 slots in the order
  age, gender, weight, height, fat_percentage, bmi_input, workout_type, session_duration,
  workout_frequency, max_bpm, avg_bpm, resting_bpm, difficulty, body_part, meal_type,
  diet_type, cooking_method, water_intake, meals_frequency, sugar_g, sodium_mg,
  cholesterol_mg, serving_size_g, prep_time_min, cook_time_min, rating, experience_level,
  physical_exercise. A categorical slot is the code that \<open>encode\<close> gives with the map of
  its field. A numeric slot is \<open>value or 0\<close>: the integer 0 for an absent field and for a
  supplied zero (0.0 or -0.0), and the supplied float itself for every other value.
\<close>

theorem features_layout:
  "features data =
     [ or_0 (age data), PyInt (encode (gender data) gender_map),
       or_0 (weight data), or_0 (height data),
       or_0 (fat_percentage data), or_0 (bmi_input data),
       PyInt (encode (workout_type data) workout_map), or_0 (session_duration data),
       or_0 (workout_frequency data), or_0 (max_bpm data),
       or_0 (avg_bpm data), or_0 (resting_bpm data),
       PyInt (encode (difficulty data) difficulty_map),
       PyInt (encode (body_part data) body_part_map),
       PyInt (encode (meal_type data) meal_map), PyInt (encode (diet_type data) diet_map),
       PyInt (encode (cooking_method data) cooking_map),
       or_0 (water_intake data), or_0 (meals_frequency data),
       or_0 (sugar_g data), or_0 (sodium_mg data),
       or_0 (cholesterol_mg data), or_0 (serving_size_g data),
       or_0 (prep_time_min data), or_0 (cook_time_min data),
       or_0 (rating data),
       or_0 (experience_level data), or_0 (physical_exercise data) ]
   \<and> length (features data) = 28
   \<and> or_0 None = PyInt 0
   \<and> or_0 (Some x) = (if x = pos_zero \<or> x = neg_zero then PyInt 0 else PyFloat x)"
  by (simp add: features_def Let_def or_0_def float_is_zero_def)

text \<open>
  A supplied value is not always used unchanged: the request whose only field is the
  weight -0.0 has the integer 0 in the weight slot, not the float -0.0.
\<close>

theorem supplied_negative_zero_not_kept:
  "weight (empty_request\<lparr>weight := Some neg_zero\<rparr>) = Some neg_zero
   \<and> features (empty_request\<lparr>weight := Some neg_zero\<rparr>) ! 2 = PyInt 0
   \<and> features (empty_request\<lparr>weight := Some neg_zero\<rparr>) ! 2 \<noteq> PyFloat neg_zero"
  by (simp add: features_def Let_def or_0_def float_is_zero_def)

text \<open>
  The end-to-end example of the specification: gender Female gives 2, workout type cardio
  gives 2, weight, height and session duration are kept, every other slot is 0.
\<close>

lemma features_example:
  "features example_request =
     [PyInt 0, PyInt 2, PyFloat 0x4050400000000000, PyFloat 0x3FFB333333333333,
      PyInt 0, PyInt 0, PyInt 2, PyFloat 0x3FF0000000000000,
      PyInt 0, PyInt 0, PyInt 0, PyInt 0, PyInt 0, PyInt 0, PyInt 0, PyInt 0, PyInt 0,
      PyInt 0, PyInt 0, PyInt 0, PyInt 0, PyInt 0, PyInt 0, PyInt 0, PyInt 0, PyInt 0,
      PyInt 0, PyInt 0]"
  by (simp add: features_def Let_def example_request_def empty_request_def or_0_def
        float_is_zero_def pos_zero_def neg_zero_def encode_def lower_Female lower_cardio
        gender_map_def workout_map_def)

text \<open>
  C4: the feature list has length 28 for every request, and for the request with all 28
  fields absent every slot is the integer 0.
\<close>

theorem features_length_and_empty:
  "length (features data) = 28 \<and> features empty_request = replicate 28 (PyInt 0)"
  by (simp add: features_def Let_def empty_request_def encode_def or_0_def eval_nat_numeral)

text \<open>
  C9: each categorical slot (positions 1, 6, 12, 13, 14, 15, 16) is an integer between 0 and
  the size of its field's map: gender and difficulty in 0..3, workout type and meal type in
  0..4, body part, diet type and cooking method in 0..5.
\<close>

theorem categorical_slots_in_range:
  "features data ! 1 \<in> PyInt ` {0 .. int (card (dom gender_map))}
   \<and> features data ! 6 \<in> PyInt ` {0 .. int (card (dom workout_map))}
   \<and> features data ! 12 \<in> PyInt ` {0 .. int (card (dom difficulty_map))}
   \<and> features data ! 13 \<in> PyInt ` {0 .. int (card (dom body_part_map))}
   \<and> features data ! 14 \<in> PyInt ` {0 .. int (card (dom meal_map))}
   \<and> features data ! 15 \<in> PyInt ` {0 .. int (card (dom diet_map))}
   \<and> features data ! 16 \<in> PyInt ` {0 .. int (card (dom cooking_map))}
   \<and> card (dom gender_map) = 3 \<and> card (dom workout_map) = 4
   \<and> card (dom difficulty_map) = 3 \<and> card (dom body_part_map) = 5
   \<and> card (dom meal_map) = 4 \<and> card (dom diet_map) = 5 \<and> card (dom cooking_map) = 5"
proof -
  have g: "features data ! 1 \<in> PyInt ` {0 .. int (card (dom gender_map))}"
    using encode_gender_range [of "gender data"]
    by (simp add: features_def Let_def card_dom_maps)
  have w: "features data ! 6 \<in> PyInt ` {0 .. int (card (dom workout_map))}"
    using encode_workout_range [of "workout_type data"]
    by (simp add: features_def Let_def card_dom_maps)
  have d: "features data ! 12 \<in> PyInt ` {0 .. int (card (dom difficulty_map))}"
    using encode_difficulty_range [of "difficulty data"]
    by (simp add: features_def Let_def card_dom_maps)
  have b: "features data ! 13 \<in> PyInt ` {0 .. int (card (dom body_part_map))}"
    using encode_body_part_range [of "body_part data"]
    by (simp add: features_def Let_def card_dom_maps)
  have m: "features data ! 14 \<in> PyInt ` {0 .. int (card (dom meal_map))}"
    using encode_meal_range [of "meal_type data"]
    by (simp add: features_def Let_def card_dom_maps)
  have t: "features data ! 15 \<in> PyInt ` {0 .. int (card (dom diet_map))}"
    using encode_diet_range [of "diet_type data"]
    by (simp add: features_def Let_def card_dom_maps)
  have c: "features data ! 16 \<in> PyInt ` {0 .. int (card (dom cooking_map))}"
    using encode_cooking_range [of "cooking_method data"]
    by (simp add: features_def Let_def card_dom_maps)
  show ?thesis
    by (intro conjI g w d b m t c card_dom_maps)
qed

text \<open>
  C10: for every request and every one of the 21 numeric fields, the feature list with the
  field supplied as 0.0 is the feature list with the field absent.
\<close>

theorem explicit_zero_like_absent:
  "features (data\<lparr>age := Some pos_zero\<rparr>) = features (data\<lparr>age := None\<rparr>)
   \<and> features (data\<lparr>weight := Some pos_zero\<rparr>) = features (data\<lparr>weight := None\<rparr>)
   \<and> features (data\<lparr>height := Some pos_zero\<rparr>) = features (data\<lparr>height := None\<rparr>)
   \<and> features (data\<lparr>fat_percentage := Some pos_zero\<rparr>)
       = features (data\<lparr>fat_percentage := None\<rparr>)
   \<and> features (data\<lparr>bmi_input := Some pos_zero\<rparr>) = features (data\<lparr>bmi_input := None\<rparr>)
   \<and> features (data\<lparr>session_duration := Some pos_zero\<rparr>)
       = features (data\<lparr>session_duration := None\<rparr>)
   \<and> features (data\<lparr>workout_frequency := Some pos_zero\<rparr>)
       = features (data\<lparr>workout_frequency := None\<rparr>)
   \<and> features (data\<lparr>max_bpm := Some pos_zero\<rparr>) = features (data\<lparr>max_bpm := None\<rparr>)
   \<and> features (data\<lparr>avg_bpm := Some pos_zero\<rparr>) = features (data\<lparr>avg_bpm := None\<rparr>)
   \<and> features (data\<lparr>resting_bpm := Some pos_zero\<rparr>) = features (data\<lparr>resting_bpm := None\<rparr>)
   \<and> features (data\<lparr>water_intake := Some pos_zero\<rparr>)
       = features (data\<lparr>water_intake := None\<rparr>)
   \<and> features (data\<lparr>meals_frequency := Some pos_zero\<rparr>)
       = features (data\<lparr>meals_frequency := None\<rparr>)
   \<and> features (data\<lparr>sugar_g := Some pos_zero\<rparr>) = features (data\<lparr>sugar_g := None\<rparr>)
   \<and> features (data\<lparr>sodium_mg := Some pos_zero\<rparr>) = features (data\<lparr>sodium_mg := None\<rparr>)
   \<and> features (data\<lparr>cholesterol_mg := Some pos_zero\<rparr>)
       = features (data\<lparr>cholesterol_mg := None\<rparr>)
   \<and> features (data\<lparr>serving_size_g := Some pos_zero\<rparr>)
       = features (data\<lparr>serving_size_g := None\<rparr>)
   \<and> features (data\<lparr>prep_time_min := Some pos_zero\<rparr>)
       = features (data\<lparr>prep_time_min := None\<rparr>)
   \<and> features (data\<lparr>cook_time_min := Some pos_zero\<rparr>)
       = features (data\<lparr>cook_time_min := None\<rparr>)
   \<and> features (data\<lparr>rating := Some pos_zero\<rparr>) = features (data\<lparr>rating := None\<rparr>)
   \<and> features (data\<lparr>experience_level := Some pos_zero\<rparr>)
       = features (data\<lparr>experience_level := None\<rparr>)
   \<and> features (data\<lparr>physical_exercise := Some pos_zero\<rparr>)
       = features (data\<lparr>physical_exercise := None\<rparr>)"
  by (simp add: features_def Let_def or_0_def float_is_zero_def)

section \<open>The /predict handler\<close>







section \<open>Startup without the model file\<close>

text \<open>
  C8: when the model file does not exist at startup, loading the module ends with an
  exception, so there is no application: no request gets any answer, a prediction
  included. When the preceding \<open>os.makedirs\<close> succeeds, the exception is the
  \<open>FileNotFoundError\<close> raised by the check of line 50.
\<close>

theorem missing_model_is_fatal:
  "\<not> path_exists os (MODEL_FILE BASE_DIR) \<Longrightarrow>
     (\<exists>e. load_module os BASE_DIR = Inl e)
     \<and> (\<exists>e. serve os BASE_DIR reqs = Inl e)
     \<and> (makedirs os (STATIC_DIR BASE_DIR) = None \<longrightarrow>
          load_module os BASE_DIR =
            Inl (FileNotFoundError ''Model file missing: calories_predictor_model.joblib'')
          \<and> serve os BASE_DIR reqs =
            Inl (FileNotFoundError ''Model file missing: calories_predictor_model.joblib''))"
  by (auto simp: serve_def load_module_def split: option.splits)

theorem missing_model_is_fatal_witness:
  "\<not> path_exists os_without_model (MODEL_FILE ''/srv/app'')
   \<and> makedirs os_without_model (STATIC_DIR ''/srv/app'') = None
   \<and> load_module os_without_model ''/srv/app'' =
       Inl (FileNotFoundError ''Model file missing: calories_predictor_model.joblib'')
   \<and> serve os_without_model ''/srv/app'' [Predict example_request, Status] =
       Inl (FileNotFoundError ''Model file missing: calories_predictor_model.joblib'')"
  using missing_model_is_fatal [of os_without_model "''/srv/app''"
      "[Predict example_request, Status]"]
  by (simp add: os_without_model_def)

text \<open>With the model file in place the same requests are answered.\<close>

lemma serve_with_model:
  "serve os_with_model ''/srv/app'' [Predict example_request, Status] =
     Inr [Inr (Dict [(''predicted_calories'', JFloat example_prediction)]), Inr health]"
  by (simp add: serve_def load_module_def os_with_model_def MODEL_FILE_def os_path_join_def
        predict_def inference_def constant_estimator_def)

end
